theory Spec2Isabelle
  imports Complex_Main "HOL-Library.AList"
begin

section \<open>JavaScript values\<close>

text \<open>
  The stores and the dashboard controller handle untyped values (\<open>unknown\<close>, \<open>any\<close>, the
  result of \<open>JSON.parse\<close>, strings read from \<open>localStorage\<close>), so the model has one type of
  JavaScript values. A number is a double: not-a-number, an infinity, or a finite value,
  which is kept as the rational it denotes (the program only compares numbers with
  constants and tests them for truthiness). A string is a list of characters, one per code
  unit. An object is the list of its own properties in insertion order.
\<close>

datatype jsnum = NaN | PosInfinity | NegInfinity | Num rat

datatype jsval =
    JUndefined
  | JNull
  | JBool bool
  | JNumber jsnum
  | JString string
  | JArray "jsval list"
  | JObject "(string \<times> jsval) list"

type_synonym jsobj = "(string \<times> jsval) list"

datatype jstype = TUndefined | TObject | TBoolean | TNumber | TString

fun typeof :: "jsval \<Rightarrow> jstype" where
  "typeof JUndefined = TUndefined"
| "typeof JNull = TObject"
| "typeof (JBool b) = TBoolean"
| "typeof (JNumber n) = TNumber"
| "typeof (JString s) = TString"
| "typeof (JArray xs) = TObject"
| "typeof (JObject kvs) = TObject"

text \<open>Truthiness (\<open>ToBoolean\<close>), as used by \<open>if (x)\<close>, \<open>x && y\<close>, \<open>x || y\<close> and \<open>x ? a : b\<close>.\<close>

fun truthy :: "jsval \<Rightarrow> bool" where
  "truthy JUndefined = False"
| "truthy JNull = False"
| "truthy (JBool b) = b"
| "truthy (JNumber NaN) = False"
| "truthy (JNumber (Num r)) = (r \<noteq> 0)"
| "truthy (JNumber n) = True"
| "truthy (JString s) = (s \<noteq> [])"
| "truthy (JArray xs) = True"
| "truthy (JObject kvs) = True"

text \<open>\<open>v >= c\<close> and \<open>v <= c\<close> for a value already known to be a number and a finite constant.\<close>

fun num_ge :: "jsval \<Rightarrow> rat \<Rightarrow> bool" where
  "num_ge (JNumber (Num r)) c = (r \<ge> c)"
| "num_ge (JNumber PosInfinity) c = True"
| "num_ge v c = False"

fun num_le :: "jsval \<Rightarrow> rat \<Rightarrow> bool" where
  "num_le (JNumber (Num r)) c = (r \<le> c)"
| "num_le (JNumber NegInfinity) c = True"
| "num_le v c = False"

text \<open>\<open>(v as string).length\<close>, read only behind \<open>typeof v === 'string'\<close>.\<close>

fun str_length :: "jsval \<Rightarrow> nat" where
  "str_length (JString s) = length s"
| "str_length v = 0"

text \<open>\<open>xs.includes(v)\<close> on an array literal of strings.\<close>

definition arr_includes :: "jsval list \<Rightarrow> jsval \<Rightarrow> bool" where
  "arr_includes xs v = (v \<in> set xs)"

text \<open>
  Reading a property of a settings object: \<open>obj[key]\<close> is \<open>undefined\<close> where the object has
  no such property.
\<close>

definition prop_of :: "jsobj \<Rightarrow> string \<Rightarrow> jsval" where
  "prop_of obj k = (case map_of obj k of None \<Rightarrow> JUndefined | Some v \<Rightarrow> v)"

text \<open>
  The object spread \<open>{ ...a, ...b }\<close>: the properties of \<open>a\<close>, each overwritten in place by
  the property of \<open>b\<close> with the same key, followed by the remaining properties of \<open>b\<close>.
\<close>

definition spread :: "jsobj \<Rightarrow> jsobj \<Rightarrow> jsobj" where
  "spread a b = fold (\<lambda>(k, v). AList.update k v) b a"


section \<open>Settings schema and defaults (features/settings/types.ts)\<close>

text \<open>
  \<open>SETTINGS_SCHEMA\<close> is the table of validators: the sixteen own properties that the
  object literal declares. A read \<open>SETTINGS_SCHEMA[key]\<close> at any other key goes on to
  \<open>Object.prototype\<close>; \<open>schemaRead\<close> below is that read.
\<close>

definition SETTINGS_SCHEMA :: "string \<Rightarrow> (jsval \<Rightarrow> bool) option" where
  "SETTINGS_SCHEMA = map_of
    [(''projectType'', \<lambda>v. typeof v = TString \<and> arr_includes [JString ''astro'', JString ''github''] v),
     (''postsPath'', \<lambda>v. typeof v = TString),
     (''imagesPath'', \<lambda>v. typeof v = TString),
     (''domainUrl'', \<lambda>v. typeof v = TString),
     (''postTemplate'', \<lambda>v. typeof v = TString),
     (''postFileTypes'', \<lambda>v. typeof v = TString \<and> str_length v < 100),
     (''imageFileTypes'', \<lambda>v. typeof v = TString \<and> str_length v < 100),
     (''publishDateSource'', \<lambda>v. typeof v = TString \<and> arr_includes [JString ''file'', JString ''system''] v),
     (''imageCompressionEnabled'', \<lambda>v. typeof v = TBoolean),
     (''maxImageSize'', \<lambda>v. typeof v = TNumber \<and> num_ge v 10 \<and> num_le v 1024),
     (''imageResizeMaxWidth'', \<lambda>v. typeof v = TNumber \<and> num_ge v 0 \<and> num_le v 10000),
     (''newPostCommit'', \<lambda>v. typeof v = TString \<and> str_length v < 200),
     (''updatePostCommit'', \<lambda>v. typeof v = TString \<and> str_length v < 200),
     (''newImageCommit'', \<lambda>v. typeof v = TString \<and> str_length v < 200),
     (''updateImageCommit'', \<lambda>v. typeof v = TString \<and> str_length v < 200),
     (''pageel-cms-lang'', \<lambda>v. typeof v = TString \<and> arr_includes [JString ''en'', JString ''vi''] v)]"

text \<open>
  \<open>SETTINGS_SCHEMA\<close> is an ordinary object, so it inherits the members of
  \<open>Object.prototype\<close>: the methods of the language standard, the four legacy accessor
  methods and the \<open>__proto__\<close> accessor that browsers and Node provide.
\<close>

definition OBJECT_PROTOTYPE_MEMBERS :: "string list" where
  "OBJECT_PROTOTYPE_MEMBERS =
     [''constructor'', ''hasOwnProperty'', ''isPrototypeOf'', ''propertyIsEnumerable'',
      ''toLocaleString'', ''toString'', ''valueOf'', ''__defineGetter__'', ''__defineSetter__'',
      ''__lookupGetter__'', ''__lookupSetter__'', ''__proto__'']"

text \<open>
  What the read \<open>SETTINGS_SCHEMA[key]\<close> yields: the declared validator, an inherited member
  of \<open>Object.prototype\<close> (every one of them truthy), or \<open>undefined\<close>.
\<close>

datatype schemaValue = Declared "jsval \<Rightarrow> bool" | Inherited string | Missing

definition schemaRead :: "string \<Rightarrow> schemaValue" where
  "schemaRead key =
     (case SETTINGS_SCHEMA key of
        Some validator \<Rightarrow> Declared validator
      | None \<Rightarrow> if key \<in> set OBJECT_PROTOTYPE_MEMBERS then Inherited key else Missing)"

text \<open>
  Calling an inherited member as \<open>validator(value)\<close>, a plain call in module (strict) code,
  so \<open>this\<close> is \<open>undefined\<close>; the result is the truthiness of what the call returns, or the
  \<open>TypeError\<close> it throws:
  \<^item> \<open>constructor\<close> is \<open>Object\<close>, which returns an object, and \<open>toString\<close> returns
    \<open>"[object Undefined]"\<close>: both truthy;
  \<^item> \<open>isPrototypeOf(value)\<close> returns \<open>false\<close> when \<open>value\<close> is not an object, before it
    looks at \<open>this\<close>, and throws otherwise;
  \<^item> the other methods convert \<open>this\<close> to an object first and throw; \<open>__proto__\<close> reads as
    the prototype object, which is not callable.
\<close>

datatype typeError = TypeError

definition callInherited :: "string \<Rightarrow> jsval \<Rightarrow> typeError + bool" where
  "callInherited name v =
     (if name = ''constructor'' \<or> name = ''toString'' then Inr True
      else if name = ''isPrototypeOf''
        then (if typeof v = TObject \<and> v \<noteq> JNull then Inl TypeError else Inr False)
      else Inl TypeError)"

definition DEFAULT_SETTINGS :: jsobj where
  \<open>DEFAULT_SETTINGS =
    [(''projectType'', JString ''astro''),
     (''postsPath'', JString ''''),
     (''imagesPath'', JString ''public/images''),
     (''domainUrl'', JString ''''),
     (''postFileTypes'', JString ''.md,.mdx''),
     (''imageFileTypes'', JString ''image/*''),
     (''publishDateSource'', JString ''file''),
     (''imageCompressionEnabled'', JBool False),
     (''maxImageSize'', JNumber (Num 500)),
     (''imageResizeMaxWidth'', JNumber (Num 1024)),
     (''newPostCommit'', JString ''feat(content): add post "{filename}"''),
     (''updatePostCommit'', JString ''fix(content): update post "{filename}"''),
     (''newImageCommit'', JString ''feat(assets): add image "{filename}"''),
     (''updateImageCommit'', JString ''refactor(assets): update image for "{filename}"'')]\<close>


section \<open>Settings store (features/settings/store.ts)\<close>

record settingsState =
  settings :: jsobj
  isLoading :: bool
  isSaving :: bool
  saveSuccess :: bool
  isSetupComplete :: bool

text \<open>
  \<open>!validator || validator(value)\<close> where \<open>validator\<close> is an own property of
  \<open>SETTINGS_SCHEMA\<close> or absent: the form of the test in \<open>loadSettings\<close> and in the
  dashboard's cache loop, whose keys are declared keys of the schema, and in the import
  loop, which skips every key that is not an own property of the schema.
\<close>

definition passes :: "string \<Rightarrow> jsval \<Rightarrow> bool" where
  "passes key v = (case SETTINGS_SCHEMA key of None \<Rightarrow> True | Some validator \<Rightarrow> validator v)"

text \<open>
  \<open>validateSettings\<close> takes the keys from its argument and reads \<open>SETTINGS_SCHEMA[key]\<close>
  unguarded. \<open>validateEntry\<close> is the callback \<open>!validator || validator(value)\<close> and
  \<open>every\<close> is \<open>Array.prototype.every\<close>: it goes through the entries in order, stops with
  \<open>false\<close> at the first falsy result, and a callback that throws ends the call.
\<close>

definition validateEntry :: "string \<times> jsval \<Rightarrow> typeError + bool" where
  "validateEntry entry =
     (case entry of (key, v) \<Rightarrow>
        (case schemaRead key of
           Missing \<Rightarrow> Inr True
         | Declared validator \<Rightarrow> Inr (validator v)
         | Inherited name \<Rightarrow> callInherited name v))"

fun every :: "('a \<Rightarrow> typeError + bool) \<Rightarrow> 'a list \<Rightarrow> typeError + bool" where
  "every f [] = Inr True"
| "every f (x # xs) =
     (case f x of
        Inl e \<Rightarrow> Inl e
      | Inr b \<Rightarrow> if b then every f xs else Inr False)"

definition validateSettings :: "jsobj \<Rightarrow> typeError + bool" where
  "validateSettings s = every validateEntry s"

text \<open>
  \<open>setSettings\<close> takes either a partial settings object or an updater function
  (\<open>typeof newSettings === 'function'\<close>).
\<close>

datatype settingsArg = Partial jsobj | Updater "jsobj \<Rightarrow> jsobj"

fun setSettings :: "settingsArg \<Rightarrow> settingsState \<Rightarrow> settingsState" where
  "setSettings (Updater newSettings) state = state\<lparr>settings := newSettings (settings state)\<rparr>"
| "setSettings (Partial newSettings) state = state\<lparr>settings := spread (settings state) newSettings\<rparr>"

definition resetSettings :: "settingsState \<Rightarrow> settingsState" where
  "resetSettings state = state\<lparr>settings := DEFAULT_SETTINGS, isSetupComplete := False\<rparr>"

definition setSetupComplete :: "bool \<Rightarrow> settingsState \<Rightarrow> settingsState" where
  "setSetupComplete done_flag state = state\<lparr>isSetupComplete := done_flag\<rparr>"

definition getStorageKey :: "string \<Rightarrow> string \<Rightarrow> bool \<Rightarrow> string" where
  "getStorageKey key repoId isRepoSpecific = (if isRepoSpecific then key @ ''_'' @ repoId else key)"

definition REPO_SPECIFIC_KEYS :: "string list" where
  "REPO_SPECIFIC_KEYS = [''projectType'', ''postsPath'', ''imagesPath'', ''domainUrl'']"

text \<open>
  The decoding of a stored string, written inline in \<open>loadSettings\<close> and again in the
  dashboard's \<open>loadSettingsAndScan\<close>. \<open>toNumber\<close> is JavaScript's built-in \<open>Number(...)\<close>
  conversion of a string, a parameter of the model; \<open>isNaN\<close> is the test for \<open>NaN\<close>.
\<close>

definition parseStored :: "(string \<Rightarrow> jsnum) \<Rightarrow> string \<Rightarrow> jsval" where
  "parseStored toNumber stored =
     (if stored = ''true'' then JBool True
      else if stored = ''false'' then JBool False
      else if toNumber stored \<noteq> NaN \<and> stored \<noteq> [] then JNumber (toNumber stored)
      else JString stored)"

text \<open>One round of the \<open>forEach\<close> over \<open>Object.keys(DEFAULT_SETTINGS)\<close> in \<open>loadSettings\<close>.\<close>

definition loadKey ::
  "(string \<Rightarrow> jsnum) \<Rightarrow> string \<Rightarrow> (string \<rightharpoonup> string) \<Rightarrow> string \<Rightarrow> jsobj \<Rightarrow> jsobj" where
  "loadKey toNumber repoId storage key loadedSettings =
     (let isRepoSpecific = key \<in> set REPO_SPECIFIC_KEYS;
          storageKey = getStorageKey key repoId isRepoSpecific
      in case storage storageKey of
           None \<Rightarrow> loadedSettings
         | Some stored \<Rightarrow>
             (let v = parseStored toNumber stored
              in if passes key v then AList.update key v loadedSettings else loadedSettings))"

definition loadSettings ::
  "(string \<Rightarrow> jsnum) \<Rightarrow> string \<Rightarrow> (string \<rightharpoonup> string) \<Rightarrow> settingsState \<Rightarrow> settingsState" where
  "loadSettings toNumber repoId storage state =
     (let loadedSettings = fold (loadKey toNumber repoId storage) (map fst DEFAULT_SETTINGS) [];
          state1 = state\<lparr>settings := spread (settings state) loadedSettings\<rparr>
      in if truthy (prop_of (settings state1) ''projectType'')
            \<and> truthy (prop_of (settings state1) ''postsPath'')
            \<and> truthy (prop_of (settings state1) ''imagesPath'')
         then state1\<lparr>isSetupComplete := True\<rparr>
         else state1)"


section \<open>App store (features/app/store.ts)\<close>

datatype ViewType = Dashboard | Workflows | Images | Template | Backup | Settings

record repoStatsT =
  postCount :: "jsnum option"
  imageCount :: "jsnum option"

record appState =
  activeView :: ViewType
  isSidebarOpen :: bool
  isScanning :: bool
  isSyncing :: bool
  syncMessage :: "string option"
  scanPhase :: "string option"
  scanProgress :: jsnum
  repoStats :: repoStatsT

text \<open>The store's initial state; \<open>getInitialView()\<close> reads the view from the URL.\<close>

definition initialAppState :: "ViewType \<Rightarrow> appState" where
  "initialAppState initialView =
     \<lparr>activeView = initialView, isSidebarOpen = False, isScanning = True, isSyncing = False,
      syncMessage = None, scanPhase = None, scanProgress = Num 0,
      repoStats = \<lparr>postCount = None, imageCount = None\<rparr>\<rparr>"

definition setScanning :: "bool \<Rightarrow> appState \<Rightarrow> appState" where
  "setScanning scanning state = state\<lparr>isScanning := scanning\<rparr>"

text \<open>
  \<open>startSync(message)\<close>; the message is optional, and \<open>message || 'Syncing...'\<close> replaces a
  missing or empty one.
\<close>

definition startSync :: "string option \<Rightarrow> appState \<Rightarrow> appState" where
  "startSync message state =
     state\<lparr>isSyncing := True,
           syncMessage := Some (case message of None \<Rightarrow> ''Syncing...''
                                | Some m \<Rightarrow> if m \<noteq> [] then m else ''Syncing...'')\<rparr>"

definition endSync :: "appState \<Rightarrow> appState" where
  "endSync state = state\<lparr>isSyncing := False, syncMessage := None\<rparr>"

text \<open>
  \<open>setScanPhase(phase, progress)\<close>: \<open>phase\<close> is a string or \<open>null\<close>, \<open>progress\<close> a number or
  absent; the default is \<open>phase ? 50 : 0\<close>.
\<close>

definition setScanPhase :: "string option \<Rightarrow> jsnum option \<Rightarrow> appState \<Rightarrow> appState" where
  "setScanPhase phase progress state =
     state\<lparr>scanPhase := phase,
           scanProgress := (case progress of
                              Some p \<Rightarrow> p
                            | None \<Rightarrow> if (case phase of None \<Rightarrow> False | Some s \<Rightarrow> s \<noteq> [])
                                      then Num 50 else Num 0)\<rparr>"


section \<open>The process-wide state and the sync lock wrapper (withSyncLock)\<close>

text \<open>
  A thrown value: an \<open>Error\<close> with its message, or anything else.
\<close>

datatype thrown = ErrorObj string | NonError

datatype gitCall = GetFileContent string | FindProductionUrl | ScanForContentDirectories
  | ScanForImageDirectories

text \<open>
  Everything the bootstrap and the lock-guarded operations can change: the two stores of
  this repository, the collection store (of the \<open>collections\<close> feature, kept abstract), the
  browser's \<open>localStorage\<close>, the dashboard's two lists of suggested paths, and the record of
  the calls made to the injected Git service.
\<close>

record 'w world =
  appStore :: appState
  settingsStore :: settingsState
  collectionStore :: 'w
  localStorage :: "string \<rightharpoonup> string"
  suggestedPostPaths :: "string list"
  suggestedImagePaths :: "string list"
  gitCalls :: "gitCall list"

text \<open>
  \<open>withSyncLock(operation, message)\<close>. The operation is asynchronous: it is given the state
  after \<open>startSync\<close> and settles with a value or a thrown error, having changed the state
  in whatever way it (and anything else that ran before it settled) did.
\<close>

definition withSyncLock ::
  "('w world \<Rightarrow> (thrown + 'a) \<times> 'w world) \<Rightarrow> string option \<Rightarrow> 'w world
     \<Rightarrow> (thrown + 'a) \<times> 'w world" where
  "withSyncLock operation message w =
     (if isSyncing (appStore w)
      then (Inl (ErrorObj ''Another sync operation is in progress. Please wait.''), w)
      else (let (result, w') = operation (w\<lparr>appStore := startSync message (appStore w)\<rparr>)
            in (result, w'\<lparr>appStore := endSync (appStore w')\<rparr>)))"


section \<open>The dashboard controller: bootstrap (loadSettingsAndScan)\<close>

text \<open>
  What the controller uses without defining it is a parameter of the model:
  \<^item> JavaScript's built-in conversions \<open>Number(s)\<close>, \<open>String(v)\<close>, \<open>JSON.parse\<close>
    (which may throw) and \<open>JSON.stringify\<close>;
  \<^item> the injected Git service: what each of its calls settles with;
  \<^item> the actions of the collection store that the bootstrap calls;
  \<^item> what \<open>loadCollectionsFromPageelrc\<close> resolved to: \<open>null\<close> or an object with the
    \<open>collections\<close> array and the optional shared \<open>settings\<close> (the field \<open>sharedSettings\<close>
    here), and whatever else it carries.
\<close>

record jsBuiltins =
  js_Number :: "string \<Rightarrow> jsnum"
  js_String :: "jsval \<Rightarrow> string"
  js_JSON_parse :: "string \<Rightarrow> thrown + jsval"
  js_JSON_stringify :: "jsval \<Rightarrow> string"

record gitService =
  getFileContent :: "string \<Rightarrow> thrown + string"
  findProductionUrl :: "thrown + string option"
  scanForContentDirectories :: "thrown + string list"
  scanForImageDirectories :: "thrown + string list"

record 'w collectionActions =
  initWorkspace :: "string \<Rightarrow> 'w \<Rightarrow> 'w"
  hasWorkspace :: "'w \<Rightarrow> bool"
  setCollections :: "jsval list \<Rightarrow> 'w \<Rightarrow> 'w"
  updateSettings :: "jsval \<Rightarrow> 'w \<Rightarrow> 'w"

record collectionsData =
  collections :: "jsval list"
  sharedSettings :: jsval

text \<open>
  Reading a property \<open>x.name\<close> or \<open>x?.name\<close> of a parsed JSON value, for the property names
  the controller reads (\<open>projectType\<close>, \<open>paths\<close>, \<open>posts\<close>, \<open>settings\<close>, \<open>commits\<close>,
  \<open>collections\<close>, ...): none of them is a built-in property of a string, an array, a number or
  a boolean, so only an object can have one. The plain form \<open>x.name\<close> is used by the
  controller only where \<open>x\<close> is truthy; \<open>importedConfig.collections\<close>, which throws on
  \<open>null\<close>, is handled in \<open>handleFileImport\<close>.
\<close>

fun member :: "jsval \<Rightarrow> string \<Rightarrow> jsval" where
  "member (JObject kvs) name = prop_of kvs name"
| "member v name = JUndefined"

text \<open>The \<open>keys\<close> array of \<open>loadSettingsAndScan\<close>.\<close>

definition cacheKeys :: "string list" where
  "cacheKeys =
     [''projectType'', ''postsPath'', ''imagesPath'', ''domainUrl'', ''postFileTypes'',
      ''imageFileTypes'', ''publishDateSource'', ''imageCompressionEnabled'', ''maxImageSize'',
      ''imageResizeMaxWidth'', ''newPostCommit'', ''updatePostCommit'', ''newImageCommit'',
      ''updateImageCommit'']"

text \<open>The cache key of the dashboard: every field is scoped by the repository's full name.\<close>

definition scopedKey :: "string \<Rightarrow> string \<Rightarrow> string" where
  "scopedKey key prefix = key @ ''_'' @ prefix"

definition loadCachedKey ::
  "jsBuiltins \<Rightarrow> string \<Rightarrow> (string \<rightharpoonup> string) \<Rightarrow> string \<Rightarrow> jsobj \<Rightarrow> jsobj" where
  "loadCachedKey js prefix storage key loadedSettings =
     (case storage (scopedKey key prefix) of
        None \<Rightarrow> loadedSettings
      | Some stored \<Rightarrow>
          (let parsedValue = parseStored (js_Number js) stored
           in if passes key parsedValue then AList.update key parsedValue loadedSettings
              else loadedSettings))"

definition loadCached :: "jsBuiltins \<Rightarrow> string \<Rightarrow> (string \<rightharpoonup> string) \<Rightarrow> jsobj" where
  "loadCached js prefix storage =
     (let loadedSettings = fold (loadCachedKey js prefix storage) cacheKeys []
      in if prop_of loadedSettings ''imageResizeMaxWidth'' = JUndefined
         then AList.update ''imageResizeMaxWidth'' (JNumber (Num 1024)) loadedSettings
         else loadedSettings)"

definition applyIfValid :: "string \<Rightarrow> jsval \<Rightarrow> jsobj \<Rightarrow> jsobj" where
  "applyIfValid key v newSettings =
     (if v \<noteq> JUndefined \<and> (case SETTINGS_SCHEMA key of None \<Rightarrow> False | Some validator \<Rightarrow> validator v)
      then AList.update key v newSettings
      else newSettings)"

text \<open>\<open>if (v) applyIfValid(key, v)\<close>, the form used for the four top-level fields.\<close>

definition applyIfTruthy :: "string \<Rightarrow> jsval \<Rightarrow> jsobj \<Rightarrow> jsobj" where
  "applyIfTruthy key v newSettings = (if truthy v then applyIfValid key v newSettings else newSettings)"

definition mergePathsAndProject :: "jsval \<Rightarrow> jsobj \<Rightarrow> jsobj" where
  "mergePathsAndProject config =
     applyIfTruthy ''domainUrl'' (member config ''domainUrl'')
     \<circ> applyIfTruthy ''imagesPath'' (member (member config ''paths'') ''images'')
     \<circ> applyIfTruthy ''postsPath'' (member (member config ''paths'') ''posts'')
     \<circ> applyIfTruthy ''projectType'' (member config ''projectType'')"

definition mergeTechnical :: "jsval \<Rightarrow> jsobj \<Rightarrow> jsobj" where
  "mergeTechnical config =
     (if truthy (member config ''settings'')
      then applyIfValid ''imageResizeMaxWidth'' (member (member config ''settings'') ''imageResizeMaxWidth'')
         \<circ> applyIfValid ''maxImageSize'' (member (member config ''settings'') ''maxImageSize'')
         \<circ> applyIfValid ''imageCompressionEnabled'' (member (member config ''settings'') ''imageCompressionEnabled'')
         \<circ> applyIfValid ''publishDateSource'' (member (member config ''settings'') ''publishDateSource'')
         \<circ> applyIfValid ''imageFileTypes'' (member (member config ''settings'') ''imageFileTypes'')
         \<circ> applyIfValid ''postFileTypes'' (member (member config ''settings'') ''postFileTypes'')
      else id)"

definition mergeCommits :: "jsval \<Rightarrow> jsobj \<Rightarrow> jsobj" where
  "mergeCommits config =
     (if truthy (member config ''commits'')
      then applyIfValid ''updateImageCommit'' (member (member config ''commits'') ''updateImage'')
         \<circ> applyIfValid ''newImageCommit'' (member (member config ''commits'') ''newImage'')
         \<circ> applyIfValid ''updatePostCommit'' (member (member config ''commits'') ''updatePost'')
         \<circ> applyIfValid ''newPostCommit'' (member (member config ''commits'') ''newPost'')
      else id)"

text \<open>
  The merge of the remote file over the draft \<open>newSettings\<close>: paths and project info, then
  the technical settings, then the commit templates.
\<close>

definition mergeRemoteConfig :: "jsval \<Rightarrow> jsobj \<Rightarrow> jsobj" where
  "mergeRemoteConfig config = mergeCommits config \<circ> mergeTechnical config \<circ> mergePathsAndProject config"

text \<open>\<open>keys.forEach(key => { if (newSettings[key] !== undefined) localStorage.setItem(...) })\<close>\<close>

definition refreshCacheKey ::
  "jsBuiltins \<Rightarrow> string \<Rightarrow> jsobj \<Rightarrow> string \<Rightarrow> (string \<rightharpoonup> string) \<Rightarrow> (string \<rightharpoonup> string)" where
  "refreshCacheKey js prefix newSettings key storage =
     (if prop_of newSettings key \<noteq> JUndefined
      then storage(scopedKey key prefix \<mapsto> js_String js (prop_of newSettings key))
      else storage)"

definition storeIfTruthy ::
  "jsBuiltins \<Rightarrow> string \<Rightarrow> jsval \<Rightarrow> (string \<rightharpoonup> string) \<Rightarrow> (string \<rightharpoonup> string)" where
  "storeIfTruthy js storageKey v storage =
     (if truthy v then storage(storageKey \<mapsto> js_JSON_stringify js v) else storage)"

definition refreshCache ::
  "jsBuiltins \<Rightarrow> string \<Rightarrow> jsval \<Rightarrow> jsobj \<Rightarrow> (string \<rightharpoonup> string) \<Rightarrow> (string \<rightharpoonup> string)" where
  "refreshCache js prefix config newSettings =
     storeIfTruthy js (scopedKey ''postTableColumnWidths'' prefix) (member (member config ''ui'') ''columnWidths'')
     \<circ> storeIfTruthy js (scopedKey ''postTableColumns'' prefix) (member (member config ''ui'') ''tableColumns'')
     \<circ> storeIfTruthy js (scopedKey ''postTemplate'' prefix) (member (member config ''templates'') ''frontmatter'')
     \<circ> fold (refreshCacheKey js prefix newSettings) cacheKeys"

text \<open>
  The first step after \<open>initWorkspace\<close>: the collections of a v2 file are loaded into the
  workspace.
\<close>

definition loadRemoteCollections ::
  "'w collectionActions \<Rightarrow> 'm collectionsData_scheme option \<Rightarrow> 'w \<Rightarrow> 'w" where
  "loadRemoteCollections store collectionsData cs =
     (case collectionsData of
        None \<Rightarrow> cs
      | Some d \<Rightarrow>
          if length (collections d) > 0
          then (if hasWorkspace store cs
                then (let cs1 = setCollections store (collections d) cs
                      in if truthy (sharedSettings d) then updateSettings store (sharedSettings d) cs1
                         else cs1)
                else cs)
          else cs)"

text \<open>
  A phase of the bootstrap either returns from \<open>loadSettingsAndScan\<close> or goes on to the
  next phase.
\<close>

datatype 'a phase = Return 'a | Continue 'a

text \<open>
  Phase 2, the \<open>try\<close> block around the remote configuration file. \<open>settings\<close> is the
  settings object the component rendered with.
\<close>

definition checkRemoteConfig ::
  "jsBuiltins \<Rightarrow> gitService \<Rightarrow> string \<Rightarrow> jsobj \<Rightarrow> jsobj \<Rightarrow> 'w world \<Rightarrow> 'w world phase" where
  "checkRemoteConfig js git prefix renderedSettings loadedSettings w =
     (let w1 = w\<lparr>gitCalls := gitCalls w @ [GetFileContent ''.pageelrc.json'']\<rparr>;
          failed = Continue (w1\<lparr>appStore :=
                     setScanPhase (Some ''No configuration found, scanning repository...'')
                       (Some (Num 50)) (appStore w1)\<rparr>)
      in case getFileContent git ''.pageelrc.json'' of
           Inl e \<Rightarrow> failed
         | Inr configContent \<Rightarrow>
             (case js_JSON_parse js configContent of
                Inl e \<Rightarrow> failed
              | Inr config \<Rightarrow>
                  if truthy config
                  then (let newSettings = mergeRemoteConfig config (spread renderedSettings loadedSettings)
                        in Return (w1\<lparr>
                             settingsStore := setSetupComplete True
                               (setSettings (Partial newSettings) (settingsStore w1)),
                             localStorage := refreshCache js prefix config newSettings (localStorage w1),
                             appStore := setScanning False
                               (setScanPhase (Some ''Configuration loaded'') (Some (Num 100)) (appStore w1))\<rparr>))
                  else Continue w1))"

text \<open>Phase 3, the scan; \<open>scanFailed\<close> is its \<open>catch\<close> block.\<close>

definition scanFailed :: "thrown \<Rightarrow> 'w world \<Rightarrow> 'w world" where
  "scanFailed e w =
     (let message = (case e of ErrorObj m \<Rightarrow> m | NonError \<Rightarrow> ''Unknown error'')
      in w\<lparr>appStore := setScanPhase (Some (''Error: '' @ message)) (Some (Num 0)) (appStore w)\<rparr>)"

definition scanImages :: "gitService \<Rightarrow> 'w world \<Rightarrow> 'w world" where
  "scanImages git w =
     (let w1 = w\<lparr>appStore := setScanPhase (Some ''Scanning image directories...'') (Some (Num 90)) (appStore w),
                  gitCalls := gitCalls w @ [ScanForImageDirectories]\<rparr>
      in case scanForImageDirectories git of
           Inl e \<Rightarrow> scanFailed e w1
         | Inr imageDirs \<Rightarrow>
             (let w2 = w1\<lparr>suggestedImagePaths := imageDirs\<rparr>;
                  w3 = (case imageDirs of
                          [] \<Rightarrow> w2
                        | d # ds \<Rightarrow> w2\<lparr>settingsStore :=
                            setSettings (Updater (\<lambda>prev. spread prev [(''imagesPath'', JString d)]))
                              (settingsStore w2)\<rparr>)
              in w3\<lparr>appStore := setScanPhase (Some ''Scan complete'') (Some (Num 100)) (appStore w3)\<rparr>))"

definition scanContent :: "gitService \<Rightarrow> 'w world \<Rightarrow> 'w world" where
  "scanContent git w =
     (let w1 = w\<lparr>appStore := setScanPhase (Some ''Scanning content directories...'') (Some (Num 75)) (appStore w),
                  gitCalls := gitCalls w @ [ScanForContentDirectories]\<rparr>
      in case scanForContentDirectories git of
           Inl e \<Rightarrow> scanFailed e w1
         | Inr contentDirs \<Rightarrow>
             (let w2 = w1\<lparr>suggestedPostPaths := contentDirs\<rparr>;
                  w3 = (case contentDirs of
                          [] \<Rightarrow> w2
                        | d # ds \<Rightarrow> w2\<lparr>settingsStore :=
                            setSettings (Updater (\<lambda>prev. spread prev [(''postsPath'', JString d)]))
                              (settingsStore w2)\<rparr>)
              in scanImages git w3))"

definition scanRepository :: "gitService \<Rightarrow> jsobj \<Rightarrow> 'w world \<Rightarrow> 'w world" where
  "scanRepository git renderedSettings w =
     (let w1 = w\<lparr>appStore := setScanPhase (Some ''Detecting production URL...'') (Some (Num 60)) (appStore w)\<rparr>;
          scanned =
            (if truthy (prop_of renderedSettings ''domainUrl'')
             then scanContent git w1
             else (let w2 = w1\<lparr>gitCalls := gitCalls w1 @ [FindProductionUrl]\<rparr>
                   in case findProductionUrl git of
                        Inl e \<Rightarrow> scanFailed e w2
                      | Inr foundUrl \<Rightarrow>
                          (case foundUrl of
                             None \<Rightarrow> scanContent git w2
                           | Some url \<Rightarrow>
                               if url \<noteq> []
                               then scanContent git (w2\<lparr>settingsStore :=
                                      setSettings (Updater (\<lambda>prev. spread prev [(''domainUrl'', JString url)]))
                                        (settingsStore w2)\<rparr>)
                               else scanContent git w2)))
      in scanned\<lparr>appStore := setScanning False (appStore scanned)\<rparr>)"

text \<open>
  The whole bootstrap. \<open>collectionsData\<close> is what \<open>loadCollectionsFromPageelrc\<close> resolved
  to (its own calls to the Git service are not part of \<open>gitCalls\<close>).
\<close>

definition loadSettingsAndScan ::
  "jsBuiltins \<Rightarrow> gitService \<Rightarrow> 'w collectionActions \<Rightarrow> string \<Rightarrow> jsobj
     \<Rightarrow> 'm collectionsData_scheme option \<Rightarrow> 'w world \<Rightarrow> 'w world" where
  "loadSettingsAndScan js git store full_name renderedSettings collectionsData w =
     (let w1 = w\<lparr>collectionStore :=
                  loadRemoteCollections store collectionsData
                    (initWorkspace store full_name (collectionStore w))\<rparr>;
          w2 = w1\<lparr>appStore :=
                  setScanPhase (Some ''Loading saved settings...'') (Some (Num 10))
                    (setScanning True (appStore w1))\<rparr>;
          loadedSettings = loadCached js full_name (localStorage w2);
          w3 = w2\<lparr>settingsStore :=
                  setSettings (Updater (\<lambda>prev. spread prev loadedSettings)) (settingsStore w2)\<rparr>;
          w4 = w3\<lparr>appStore :=
                  setScanPhase (Some ''Checking for .pageelrc.json...'') (Some (Num 30))
                    (setScanPhase (Some ''Loading saved settings...'') (Some (Num 20)) (appStore w3))\<rparr>
      in case checkRemoteConfig js git full_name renderedSettings loadedSettings w4 of
           Return w5 \<Rightarrow> w5
         | Continue w5 \<Rightarrow>
             if truthy (prop_of loadedSettings ''projectType'')
                \<and> truthy (prop_of loadedSettings ''postsPath'')
                \<and> truthy (prop_of loadedSettings ''imagesPath'')
             then w5\<lparr>settingsStore := setSetupComplete True (settingsStore w5),
                     appStore := setScanning False
                       (setScanPhase (Some ''Using cached settings'') (Some (Num 100)) (appStore w5))\<rparr>
             else scanRepository git renderedSettings w5)"


section \<open>The dashboard controller: import (handleFileImport)\<close>












section \<open>The claims in the specification's words\<close>

text \<open>
  The value the remote file gives for a settings field: the place in the parsed document
  that the merge reads for that field.
\<close>

definition remoteValue :: "jsval \<Rightarrow> string \<Rightarrow> jsval" where
  "remoteValue config key =
     (if key = ''projectType'' then member config ''projectType''
      else if key = ''postsPath'' then member (member config ''paths'') ''posts''
      else if key = ''imagesPath'' then member (member config ''paths'') ''images''
      else if key = ''domainUrl'' then member config ''domainUrl''
      else if key \<in> set [''postFileTypes'', ''imageFileTypes'', ''publishDateSource'',
                          ''imageCompressionEnabled'', ''maxImageSize'', ''imageResizeMaxWidth'']
        then member (member config ''settings'') key
      else if key = ''newPostCommit'' then member (member config ''commits'') ''newPost''
      else if key = ''updatePostCommit'' then member (member config ''commits'') ''updatePost''
      else if key = ''newImageCommit'' then member (member config ''commits'') ''newImage''
      else if key = ''updateImageCommit'' then member (member config ''commits'') ''updateImage''
      else JUndefined)"

text \<open>A value passes the validator that \<open>SETTINGS_SCHEMA\<close> has for the field.\<close>

definition passesValidator :: "string \<Rightarrow> jsval \<Rightarrow> bool" where
  "passesValidator key v = (case SETTINGS_SCHEMA key of None \<Rightarrow> False | Some validator \<Rightarrow> validator v)"

text \<open>The four fields that the merge reads behind a truthiness test.\<close>

definition guardedFields :: "string list" where
  "guardedFields = [''projectType'', ''postsPath'', ''imagesPath'', ''domainUrl'']"

text \<open>The grouping of the settings fields by where the remote merge reads them.\<close>

definition technicalFields :: "string list" where
  "technicalFields =
     [''postFileTypes'', ''imageFileTypes'', ''publishDateSource'', ''imageCompressionEnabled'',
      ''maxImageSize'', ''imageResizeMaxWidth'']"

definition commitFields :: "string list" where
  "commitFields = [''newPostCommit'', ''updatePostCommit'', ''newImageCommit'', ''updateImageCommit'']"

text \<open>
  The cache supplies a field: the repository-scoped key holds a string whose decoded value
  passes the field's validator and is not empty.
\<close>

definition cacheSupplies :: "jsBuiltins \<Rightarrow> string \<Rightarrow> (string \<rightharpoonup> string) \<Rightarrow> string \<Rightarrow> bool" where
  "cacheSupplies js full_name storage key =
     (case storage (scopedKey key full_name) of
        None \<Rightarrow> False
      | Some stored \<Rightarrow> passes key (parseStored (js_Number js) stored)
                       \<and> truthy (parseStored (js_Number js) stored))"

text \<open>
  The remote file is usable: the read succeeds and the content parses to a value that is
  not falsy (the condition under which the \<open>try\<close> block of the bootstrap returns).
\<close>

definition remoteUsable :: "jsBuiltins \<Rightarrow> gitService \<Rightarrow> bool" where
  "remoteUsable js git =
     (case getFileContent git ''.pageelrc.json'' of
        Inl e \<Rightarrow> False
      | Inr content \<Rightarrow> (case js_JSON_parse js content of Inl e \<Rightarrow> False | Inr config \<Rightarrow> truthy config))"

text \<open>One of the three scan collaborators of the Git service was called.\<close>

definition scanCalled :: "gitCall list \<Rightarrow> bool" where
  "scanCalled calls =
     (FindProductionUrl \<in> set calls \<or> ScanForContentDirectories \<in> set calls
      \<or> ScanForImageDirectories \<in> set calls)"


section \<open>Initial state\<close>

text \<open>The initial state of the settings store, and the state of a fresh session.\<close>

definition initialSettingsState :: settingsState where
  "initialSettingsState =
     \<lparr>settings = DEFAULT_SETTINGS, isLoading = False, isSaving = False, saveSuccess = False,
      isSetupComplete = False\<rparr>"

definition initialWorld :: "'w \<Rightarrow> (string \<rightharpoonup> string) \<Rightarrow> 'w world" where
  "initialWorld cs storage =
     \<lparr>appStore = initialAppState Dashboard, settingsStore = initialSettingsState,
      collectionStore = cs, localStorage = storage, suggestedPostPaths = [],
      suggestedImagePaths = [], gitCalls = []\<rparr>"


section \<open>Example inputs\<close>

text \<open>
  Stand-ins for the built-in conversions on the values of the examples below: none of the
  example strings is numeric, the example values converted to strings are strings, and
  \<open>JSON.parse\<close> settles with the given result.
\<close>

definition exampleBuiltins :: "thrown + jsval \<Rightarrow> jsBuiltins" where
  "exampleBuiltins parsed =
     \<lparr>js_Number = (\<lambda>s. if s = ''5'' then Num 5 else NaN),
      js_String = (\<lambda>v. case v of JString s \<Rightarrow> s | _ \<Rightarrow> ''''),
      js_JSON_parse = (\<lambda>s. parsed),
      js_JSON_stringify = (\<lambda>v. '''')\<rparr>"

text \<open>A Git service whose repository has the given configuration file (or none) and scans well.\<close>

definition exampleGit :: "thrown + string \<Rightarrow> gitService" where
  "exampleGit file =
     \<lparr>getFileContent = (\<lambda>path. file),
      findProductionUrl = Inr (Some ''https://example.org''),
      scanForContentDirectories = Inr [''src/content/posts''],
      scanForImageDirectories = Inr [''public/images'']\<rparr>"

text \<open>A collection store that is just the list of collections.\<close>

definition exampleStore :: "jsval list collectionActions" where
  "exampleStore =
     \<lparr>initWorkspace = (\<lambda>full_name cs. cs), hasWorkspace = (\<lambda>cs. True),
      setCollections = (\<lambda>collections cs. collections), updateSettings = (\<lambda>s cs. cs)\<rparr>"


section \<open>Auxiliary facts\<close>

lemma map_of_spread_notin:
  "k \<notin> fst ` set b \<Longrightarrow> map_of (spread a b) k = map_of a k"
  unfolding spread_def
  by (induction b arbitrary: a) (auto simp: update_conv')

lemma map_of_spread_distinct:
  "distinct (map fst b) \<Longrightarrow>
   map_of (spread a b) x = (case map_of b x of Some v \<Rightarrow> Some v | None \<Rightarrow> map_of a x)"
  unfolding spread_def
proof (induction b arbitrary: a)
  case Nil
  then show ?case by simp
next
  case (Cons p b)
  obtain k v where p: "p = (k, v)" by (cases p)
  from Cons.prems p have nk: "map_of b k = None" and d: "distinct (map fst b)"
    by (auto simp: map_of_eq_None_iff)
  show ?case
    using Cons.IH [OF d, of "AList.update k v a"] nk
    by (auto simp: p update_conv' split: option.splits)
qed

lemma schema_maxImageSize:
  "SETTINGS_SCHEMA ''maxImageSize'' = Some (\<lambda>v. typeof v = TNumber \<and> num_ge v 10 \<and> num_le v 1024)"
  by (simp add: SETTINGS_SCHEMA_def)

lemma schema_unknown_key: "SETTINGS_SCHEMA ''futureKey'' = None"
  by (simp add: SETTINGS_SCHEMA_def)

lemma schema_projectType:
  "SETTINGS_SCHEMA ''projectType'' =
     Some (\<lambda>v. typeof v = TString \<and> arr_includes [JString ''astro'', JString ''github''] v)"
  by (simp add: SETTINGS_SCHEMA_def)

lemma schema_domainUrl: "SETTINGS_SCHEMA ''domainUrl'' = Some (\<lambda>v. typeof v = TString)"
  by (simp add: SETTINGS_SCHEMA_def)

lemma schema_postsPath: "SETTINGS_SCHEMA ''postsPath'' = Some (\<lambda>v. typeof v = TString)"
  by (simp add: SETTINGS_SCHEMA_def)

lemma schema_imagesPath: "SETTINGS_SCHEMA ''imagesPath'' = Some (\<lambda>v. typeof v = TString)"
  by (simp add: SETTINGS_SCHEMA_def)


subsection \<open>The settings cache\<close>

lemma distinct_loadKey:
  "distinct (map fst acc) \<Longrightarrow> distinct (map fst (loadKey N r ls key acc))"
  by (simp add: loadKey_def Let_def distinct_update split: option.splits)

lemma distinct_fold_loadKey:
  "distinct (map fst acc) \<Longrightarrow> distinct (map fst (fold (loadKey N r ls) ks acc))"
  by (induction ks arbitrary: acc) (simp_all add: distinct_loadKey)

lemma map_of_loadKey:
  "map_of (loadKey N r ls key acc) x =
     (if x = key then
        (case ls (getStorageKey key r (key \<in> set REPO_SPECIFIC_KEYS)) of
           None \<Rightarrow> map_of acc x
         | Some stored \<Rightarrow> if passes key (parseStored N stored) then Some (parseStored N stored)
                          else map_of acc x)
      else map_of acc x)"
  by (simp add: loadKey_def Let_def update_conv' split: option.splits)

lemma map_of_fold_loadKey:
  "map_of (fold (loadKey N r ls) ks acc) x =
     (if x \<in> set ks then
        (case ls (getStorageKey x r (x \<in> set REPO_SPECIFIC_KEYS)) of
           None \<Rightarrow> map_of acc x
         | Some stored \<Rightarrow> if passes x (parseStored N stored) then Some (parseStored N stored)
                          else map_of acc x)
      else map_of acc x)"
  by (induction ks arbitrary: acc) (auto simp: map_of_loadKey split: option.splits)

lemma map_of_loadSettings:
  "map_of (settings (loadSettings toNumber repoId storage state)) key =
     (if key \<in> set (map fst DEFAULT_SETTINGS) then
        (case storage (getStorageKey key repoId (key \<in> set REPO_SPECIFIC_KEYS)) of
           None \<Rightarrow> map_of (settings state) key
         | Some stored \<Rightarrow>
             if passes key (parseStored toNumber stored) then Some (parseStored toNumber stored)
             else map_of (settings state) key)
      else map_of (settings state) key)"
proof -
  let ?loaded = "fold (loadKey toNumber repoId storage) (map fst DEFAULT_SETTINGS) []"
  have d: "distinct (map fst ?loaded)" by (rule distinct_fold_loadKey) simp
  have "map_of (settings (loadSettings toNumber repoId storage state)) key
        = map_of (spread (settings state) ?loaded) key"
    by (simp add: loadSettings_def Let_def)
  also have "\<dots> = (case map_of ?loaded key of Some v \<Rightarrow> Some v | None \<Rightarrow> map_of (settings state) key)"
    by (rule map_of_spread_distinct [OF d])
  finally show ?thesis
    by (simp add: map_of_fold_loadKey split: option.splits)
qed


subsection \<open>The remote merge\<close>

lemma map_of_applyIfValid:
  "map_of (applyIfValid key v ns) k =
     (if k = key \<and> v \<noteq> JUndefined \<and> passesValidator key v then Some v else map_of ns k)"
  by (simp add: applyIfValid_def passesValidator_def update_conv')

lemma map_of_applyIfTruthy:
  "map_of (applyIfTruthy key v ns) k =
     (if k = key \<and> truthy v \<and> passesValidator key v then Some v else map_of ns k)"
  by (auto simp: applyIfTruthy_def map_of_applyIfValid)

lemma passesValidator_undefined: "\<not> passesValidator key JUndefined"
  by (auto simp: passesValidator_def SETTINGS_SCHEMA_def)

lemma map_of_mergePathsAndProject:
  "map_of (mergePathsAndProject config ns) k =
     (if k \<in> set guardedFields \<and> truthy (remoteValue config k) \<and> passesValidator k (remoteValue config k)
      then Some (remoteValue config k) else map_of ns k)"
  by (auto simp add: mergePathsAndProject_def map_of_applyIfTruthy guardedFields_def remoteValue_def)

lemma member_falsy: "\<not> truthy v \<Longrightarrow> member v name = JUndefined"
  by (cases v) auto

lemma map_of_mergeTechnical:
  "map_of (mergeTechnical config ns) k =
     (if k \<in> set technicalFields \<and> passesValidator k (remoteValue config k)
      then Some (remoteValue config k) else map_of ns k)"
proof (cases "truthy (member config ''settings'')")
  case True
  then show ?thesis
    using passesValidator_undefined
    by (auto simp add: mergeTechnical_def map_of_applyIfValid technicalFields_def remoteValue_def)
next
  case False
  then show ?thesis
    using passesValidator_undefined
    by (auto simp add: mergeTechnical_def technicalFields_def remoteValue_def member_falsy)
qed

lemma map_of_mergeCommits:
  "map_of (mergeCommits config ns) k =
     (if k \<in> set commitFields \<and> passesValidator k (remoteValue config k)
      then Some (remoteValue config k) else map_of ns k)"
proof (cases "truthy (member config ''commits'')")
  case True
  then show ?thesis
    using passesValidator_undefined
    by (auto simp add: mergeCommits_def map_of_applyIfValid remoteValue_def commitFields_def)
next
  case False
  then show ?thesis
    using passesValidator_undefined
    by (auto simp add: mergeCommits_def remoteValue_def member_falsy commitFields_def)
qed

lemma cacheKeys_groups:
  "k \<in> set cacheKeys \<longleftrightarrow>
     k \<in> set guardedFields \<or> k \<in> set technicalFields \<or> k \<in> set commitFields"
  by (auto simp: cacheKeys_def guardedFields_def technicalFields_def commitFields_def)

lemma guarded_not_technical: "k \<in> set guardedFields \<Longrightarrow> k \<notin> set technicalFields"
  by (auto simp: guardedFields_def technicalFields_def)

lemma guarded_not_commit: "k \<in> set guardedFields \<Longrightarrow> k \<notin> set commitFields"
  by (auto simp: guardedFields_def commitFields_def)


subsection \<open>The bootstrap\<close>

lemma setSettings_isSetupComplete [simp]:
  "isSetupComplete (setSettings arg state) = isSetupComplete state"
  by (cases arg) simp_all

lemma scanFailed_frame [simp]:
  "settingsStore (scanFailed e w) = settingsStore w"
  "gitCalls (scanFailed e w) = gitCalls w"
  by (simp_all add: scanFailed_def Let_def)

lemma scanImages_frame:
  "isSetupComplete (settingsStore (scanImages git w)) = isSetupComplete (settingsStore w)"
  "gitCalls (scanImages git w) = gitCalls w @ [ScanForImageDirectories]"
  by (simp_all add: scanImages_def Let_def split: sum.splits list.splits)

lemma scanContent_frame:
  "isSetupComplete (settingsStore (scanContent git w)) = isSetupComplete (settingsStore w)"
  "ScanForContentDirectories \<in> set (gitCalls (scanContent git w))"
  "set (gitCalls w) \<subseteq> set (gitCalls (scanContent git w))"
  by (auto simp add: scanContent_def Let_def scanImages_frame split: sum.splits list.splits)

lemma scanRepository_frame:
  "isSetupComplete (settingsStore (scanRepository git rs w)) = isSetupComplete (settingsStore w)"
  "scanCalled (gitCalls (scanRepository git rs w))"
  using scanContent_frame(3)
  by (auto simp add: scanRepository_def scanCalled_def Let_def scanContent_frame(1,2)
      split: sum.splits option.splits)

lemma checkRemoteConfig_usable:
  assumes "remoteUsable js git"
  shows "\<exists>w'. checkRemoteConfig js git fn rs loaded w = Return w'
            \<and> isSetupComplete (settingsStore w')
            \<and> gitCalls w' = gitCalls w @ [GetFileContent ''.pageelrc.json'']"
  using assms
  by (auto simp add: remoteUsable_def checkRemoteConfig_def Let_def setSetupComplete_def
      split: sum.splits)

lemma checkRemoteConfig_unusable:
  assumes "\<not> remoteUsable js git"
  shows "\<exists>w'. checkRemoteConfig js git fn rs loaded w = Continue w'
            \<and> settingsStore w' = settingsStore w
            \<and> gitCalls w' = gitCalls w @ [GetFileContent ''.pageelrc.json'']"
  using assms
  by (auto simp add: remoteUsable_def checkRemoteConfig_def Let_def split: sum.splits)

lemma map_of_loadCachedKey:
  "map_of (loadCachedKey js fn storage key acc) x =
     (if x = key then
        (case storage (scopedKey key fn) of
           None \<Rightarrow> map_of acc x
         | Some stored \<Rightarrow> if passes key (parseStored (js_Number js) stored)
                          then Some (parseStored (js_Number js) stored) else map_of acc x)
      else map_of acc x)"
  by (simp add: loadCachedKey_def Let_def update_conv' split: option.splits)

lemma map_of_fold_loadCachedKey:
  "map_of (fold (loadCachedKey js fn storage) ks acc) x =
     (if x \<in> set ks then
        (case storage (scopedKey x fn) of
           None \<Rightarrow> map_of acc x
         | Some stored \<Rightarrow> if passes x (parseStored (js_Number js) stored)
                          then Some (parseStored (js_Number js) stored) else map_of acc x)
      else map_of acc x)"
  by (induction ks arbitrary: acc) (auto simp: map_of_loadCachedKey split: option.splits)

lemma map_of_loadCached:
  "x \<noteq> ''imageResizeMaxWidth'' \<Longrightarrow>
   map_of (loadCached js fn storage) x =
     (if x \<in> set cacheKeys then
        (case storage (scopedKey x fn) of
           None \<Rightarrow> None
         | Some stored \<Rightarrow> if passes x (parseStored (js_Number js) stored)
                          then Some (parseStored (js_Number js) stored) else None)
      else None)"
  by (auto simp add: loadCached_def Let_def update_conv' map_of_fold_loadCachedKey split: option.splits)

lemma truthy_loadCached:
  assumes "x \<in> set cacheKeys" "x \<noteq> ''imageResizeMaxWidth''"
  shows "truthy (prop_of (loadCached js fn storage) x) \<longleftrightarrow> cacheSupplies js fn storage x"
  using assms
  by (simp add: prop_of_def map_of_loadCached cacheSupplies_def split: option.splits)

lemma loadedSufficient:
  "truthy (prop_of (loadCached js fn storage) ''projectType'')
     \<and> truthy (prop_of (loadCached js fn storage) ''postsPath'')
     \<and> truthy (prop_of (loadCached js fn storage) ''imagesPath'')
   \<longleftrightarrow> cacheSupplies js fn storage ''projectType''
     \<and> cacheSupplies js fn storage ''postsPath''
     \<and> cacheSupplies js fn storage ''imagesPath''"
proof -
  have "cacheSupplies js fn storage ''projectType'' = truthy (prop_of (loadCached js fn storage) ''projectType'')"
    by (rule truthy_loadCached [symmetric]) (simp_all add: cacheKeys_def)
  moreover have "cacheSupplies js fn storage ''postsPath'' = truthy (prop_of (loadCached js fn storage) ''postsPath'')"
    by (rule truthy_loadCached [symmetric]) (simp_all add: cacheKeys_def)
  moreover have "cacheSupplies js fn storage ''imagesPath'' = truthy (prop_of (loadCached js fn storage) ''imagesPath'')"
    by (rule truthy_loadCached [symmetric]) (simp_all add: cacheKeys_def)
  ultimately show ?thesis by simp
qed

lemma loadSettingsAndScan_unfold:
  "\<exists>w4. isSetupComplete (settingsStore w4) = isSetupComplete (settingsStore w)
         \<and> gitCalls w4 = gitCalls w
         \<and> loadSettingsAndScan js git store full_name rendered collectionsData w =
             (case checkRemoteConfig js git full_name rendered (loadCached js full_name (localStorage w)) w4 of
                Return w5 \<Rightarrow> w5
              | Continue w5 \<Rightarrow>
                  if truthy (prop_of (loadCached js full_name (localStorage w)) ''projectType'')
                     \<and> truthy (prop_of (loadCached js full_name (localStorage w)) ''postsPath'')
                     \<and> truthy (prop_of (loadCached js full_name (localStorage w)) ''imagesPath'')
                  then w5\<lparr>settingsStore := setSetupComplete True (settingsStore w5),
                          appStore := setScanning False
                            (setScanPhase (Some ''Using cached settings'') (Some (Num 100)) (appStore w5))\<rparr>
                  else scanRepository git rendered w5)"
proof -
  define w2 where "w2 = w\<lparr>collectionStore :=
                  loadRemoteCollections store collectionsData
                    (initWorkspace store full_name (collectionStore w)),
              appStore :=
                  setScanPhase (Some ''Loading saved settings...'') (Some (Num 10))
                    (setScanning True (appStore w))\<rparr>"
  define w4 where "w4 = w2\<lparr>settingsStore :=
                  setSettings (Updater (\<lambda>prev. spread prev (loadCached js full_name (localStorage w))))
                    (settingsStore w),
            appStore :=
                  setScanPhase (Some ''Checking for .pageelrc.json...'') (Some (Num 30))
                    (setScanPhase (Some ''Loading saved settings...'') (Some (Num 20)) (appStore w2))\<rparr>"
  have "isSetupComplete (settingsStore w4) = isSetupComplete (settingsStore w)"
       "gitCalls w4 = gitCalls w"
    by (simp_all add: w4_def w2_def)
  moreover have "loadSettingsAndScan js git store full_name rendered collectionsData w =
             (case checkRemoteConfig js git full_name rendered (loadCached js full_name (localStorage w)) w4 of
                Return w5 \<Rightarrow> w5
              | Continue w5 \<Rightarrow>
                  if truthy (prop_of (loadCached js full_name (localStorage w)) ''projectType'')
                     \<and> truthy (prop_of (loadCached js full_name (localStorage w)) ''postsPath'')
                     \<and> truthy (prop_of (loadCached js full_name (localStorage w)) ''imagesPath'')
                  then w5\<lparr>settingsStore := setSetupComplete True (settingsStore w5),
                          appStore := setScanning False
                            (setScanPhase (Some ''Using cached settings'') (Some (Num 100)) (appStore w5))\<rparr>
                  else scanRepository git rendered w5)"
    unfolding loadSettingsAndScan_def Let_def w4_def w2_def
    by (simp split: phase.splits)
  ultimately show ?thesis by blast
qed

lemma bootstrap_usable:
  assumes u: "remoteUsable js git"
  shows "isSetupComplete (settingsStore (loadSettingsAndScan js git store full_name rendered collectionsData w))
      \<and> gitCalls (loadSettingsAndScan js git store full_name rendered collectionsData w)
          = gitCalls w @ [GetFileContent ''.pageelrc.json'']"
proof -
  let ?loaded = "loadCached js full_name (localStorage w)"
  obtain w4 where w4: "gitCalls w4 = gitCalls w"
    and eq: "loadSettingsAndScan js git store full_name rendered collectionsData w =
             (case checkRemoteConfig js git full_name rendered ?loaded w4 of
                Return w5 \<Rightarrow> w5
              | Continue w5 \<Rightarrow>
                  if truthy (prop_of ?loaded ''projectType'')
                     \<and> truthy (prop_of ?loaded ''postsPath'')
                     \<and> truthy (prop_of ?loaded ''imagesPath'')
                  then w5\<lparr>settingsStore := setSetupComplete True (settingsStore w5),
                          appStore := setScanning False
                            (setScanPhase (Some ''Using cached settings'') (Some (Num 100)) (appStore w5))\<rparr>
                  else scanRepository git rendered w5)"
    using loadSettingsAndScan_unfold [of w js git store full_name rendered collectionsData] by blast
  obtain w5 where "checkRemoteConfig js git full_name rendered ?loaded w4 = Return w5"
      "isSetupComplete (settingsStore w5)" "gitCalls w5 = gitCalls w4 @ [GetFileContent ''.pageelrc.json'']"
    using checkRemoteConfig_usable [OF u, of full_name rendered ?loaded w4] by blast
  then show ?thesis by (simp add: eq w4)
qed

lemma bootstrap_unusable:
  assumes u: "\<not> remoteUsable js git"
  shows "(cacheSupplies js full_name (localStorage w) ''projectType''
          \<and> cacheSupplies js full_name (localStorage w) ''postsPath''
          \<and> cacheSupplies js full_name (localStorage w) ''imagesPath'' \<longrightarrow>
            isSetupComplete (settingsStore (loadSettingsAndScan js git store full_name rendered collectionsData w))
            \<and> gitCalls (loadSettingsAndScan js git store full_name rendered collectionsData w)
                = gitCalls w @ [GetFileContent ''.pageelrc.json''])
       \<and> (\<not> (cacheSupplies js full_name (localStorage w) ''projectType''
          \<and> cacheSupplies js full_name (localStorage w) ''postsPath''
          \<and> cacheSupplies js full_name (localStorage w) ''imagesPath'') \<longrightarrow>
            isSetupComplete (settingsStore (loadSettingsAndScan js git store full_name rendered collectionsData w))
              = isSetupComplete (settingsStore w)
            \<and> scanCalled (gitCalls (loadSettingsAndScan js git store full_name rendered collectionsData w)))"
proof -
  let ?loaded = "loadCached js full_name (localStorage w)"
  obtain w4 where w4: "gitCalls w4 = gitCalls w"
      "isSetupComplete (settingsStore w4) = isSetupComplete (settingsStore w)"
    and eq: "loadSettingsAndScan js git store full_name rendered collectionsData w =
             (case checkRemoteConfig js git full_name rendered ?loaded w4 of
                Return w5 \<Rightarrow> w5
              | Continue w5 \<Rightarrow>
                  if truthy (prop_of ?loaded ''projectType'')
                     \<and> truthy (prop_of ?loaded ''postsPath'')
                     \<and> truthy (prop_of ?loaded ''imagesPath'')
                  then w5\<lparr>settingsStore := setSetupComplete True (settingsStore w5),
                          appStore := setScanning False
                            (setScanPhase (Some ''Using cached settings'') (Some (Num 100)) (appStore w5))\<rparr>
                  else scanRepository git rendered w5)"
    using loadSettingsAndScan_unfold [of w js git store full_name rendered collectionsData] by blast
  obtain w5 where w5: "checkRemoteConfig js git full_name rendered ?loaded w4 = Continue w5"
      "settingsStore w5 = settingsStore w4" "gitCalls w5 = gitCalls w4 @ [GetFileContent ''.pageelrc.json'']"
    using checkRemoteConfig_unusable [OF u, of full_name rendered ?loaded w4] by blast
  show ?thesis
    unfolding eq w5(1) loadedSufficient [symmetric]
    by (simp add: w5 w4 scanRepository_frame setSetupComplete_def)
qed


lemma scanImages_success:
  "scanForImageDirectories git = Inr imageDirs \<Longrightarrow>
   scanPhase (appStore (scanImages git w)) = Some ''Scan complete''
   \<and> scanProgress (appStore (scanImages git w)) = Num 100"
  by (simp add: scanImages_def Let_def setScanPhase_def split: list.splits)

lemma scanContent_success:
  "scanForContentDirectories git = Inr contentDirs \<Longrightarrow>
   scanForImageDirectories git = Inr imageDirs \<Longrightarrow>
   scanPhase (appStore (scanContent git w)) = Some ''Scan complete''
   \<and> scanProgress (appStore (scanContent git w)) = Num 100"
  by (simp add: scanContent_def Let_def scanImages_success split: list.splits)

lemma scanRepository_success:
  assumes "findProductionUrl git = Inr foundUrl"
    and "scanForContentDirectories git = Inr contentDirs"
    and "scanForImageDirectories git = Inr imageDirs"
  shows "scanPhase (appStore (scanRepository git rendered w)) = Some ''Scan complete''
   \<and> scanProgress (appStore (scanRepository git rendered w)) = Num 100
   \<and> \<not> isScanning (appStore (scanRepository git rendered w))"
  using assms
  by (simp add: scanRepository_def Let_def setScanning_def
      scanContent_success [OF assms(2,3)] split: option.splits)

lemma bootstrap_scan_route:
  assumes u: "\<not> remoteUsable js git"
    and n: "\<not> (cacheSupplies js full_name (localStorage w) ''projectType''
          \<and> cacheSupplies js full_name (localStorage w) ''postsPath''
          \<and> cacheSupplies js full_name (localStorage w) ''imagesPath'')"
  shows "\<exists>w5. loadSettingsAndScan js git store full_name rendered collectionsData w
          = scanRepository git rendered w5"
proof -
  let ?loaded = "loadCached js full_name (localStorage w)"
  obtain w4 where
    eq: "loadSettingsAndScan js git store full_name rendered collectionsData w =
             (case checkRemoteConfig js git full_name rendered ?loaded w4 of
                Return w5 \<Rightarrow> w5
              | Continue w5 \<Rightarrow>
                  if truthy (prop_of ?loaded ''projectType'')
                     \<and> truthy (prop_of ?loaded ''postsPath'')
                     \<and> truthy (prop_of ?loaded ''imagesPath'')
                  then w5\<lparr>settingsStore := setSetupComplete True (settingsStore w5),
                          appStore := setScanning False
                            (setScanPhase (Some ''Using cached settings'') (Some (Num 100)) (appStore w5))\<rparr>
                  else scanRepository git rendered w5)"
    using loadSettingsAndScan_unfold [of w js git store full_name rendered collectionsData] by blast
  obtain w5 where w5: "checkRemoteConfig js git full_name rendered ?loaded w4 = Continue w5"
    using checkRemoteConfig_unusable [OF u, of full_name rendered ?loaded w4] by blast
  from n have "\<not> (truthy (prop_of ?loaded ''projectType'')
                     \<and> truthy (prop_of ?loaded ''postsPath'')
                     \<and> truthy (prop_of ?loaded ''imagesPath''))"
    unfolding loadedSufficient .
  then have "loadSettingsAndScan js git store full_name rendered collectionsData w
          = scanRepository git rendered w5"
    unfolding eq w5 by (simp only: phase.case if_False)
  then show ?thesis ..
qed


section \<open>Schema and validation\<close>

text \<open>
  On an object none of whose keys names a member of \<open>Object.prototype\<close>,
  \<open>validateSettings\<close> returns, and returns true exactly when every property whose key has
  a validator in \<open>SETTINGS_SCHEMA\<close> passes it; the other properties are ignored.
\<close>

lemma validateEntry_plain_key:
  "key \<notin> set OBJECT_PROTOTYPE_MEMBERS \<Longrightarrow> validateEntry (key, v) = Inr (passes key v)"
  by (simp add: validateEntry_def schemaRead_def passes_def split: option.splits)

lemma every_validateEntry_plain_keys:
  "\<forall>key \<in> fst ` set s. key \<notin> set OBJECT_PROTOTYPE_MEMBERS \<Longrightarrow>
   every validateEntry s = Inr (list_all (\<lambda>(key, v). passes key v) s)"
proof (induction s)
  case Nil
  then show ?case by simp
next
  case (Cons entry s)
  obtain key v where entry: "entry = (key, v)" by (cases entry)
  from Cons.prems entry have "key \<notin> set OBJECT_PROTOTYPE_MEMBERS" by simp
  then have "validateEntry entry = Inr (passes key v)"
    unfolding entry by (rule validateEntry_plain_key)
  moreover from Cons have "every validateEntry s = Inr (list_all (\<lambda>(key, v). passes key v) s)"
    by simp
  ultimately show ?case by (simp add: entry)
qed

lemma validateSettings_plain_keys:
  assumes "\<forall>key \<in> fst ` set s. key \<notin> set OBJECT_PROTOTYPE_MEMBERS"
  shows "validateSettings s =
     Inr (\<forall>(key, v) \<in> set s. \<forall>validator. SETTINGS_SCHEMA key = Some validator \<longrightarrow> validator v)"
proof -
  have "list_all (\<lambda>(key, v). passes key v) s
      = (\<forall>(key, v) \<in> set s. \<forall>validator. SETTINGS_SCHEMA key = Some validator \<longrightarrow> validator v)"
    by (auto simp: passes_def list_all_iff split: option.splits)
  with every_validateEntry_plain_keys [OF assms] show ?thesis
    by (simp add: validateSettings_def)
qed

lemma validateSettings_unknown_key_ignored:
  "validateSettings [(''futureKey'', JNull), (''maxImageSize'', JNumber (Num 500))] = Inr True
   \<and> validateSettings [(''futureKey'', JNull), (''maxImageSize'', JNumber (Num 5))] = Inr False"
  using validateSettings_plain_keys [of "[(''futureKey'', JNull), (''maxImageSize'', JNumber (Num 500))]"]
        validateSettings_plain_keys [of "[(''futureKey'', JNull), (''maxImageSize'', JNumber (Num 5))]"]
  by (simp add: schema_maxImageSize schema_unknown_key OBJECT_PROTOTYPE_MEMBERS_def)

text \<open>
  C7. The claim (true exactly when every present key that has a validator in
  \<open>SETTINGS_SCHEMA\<close> passes it; keys without one are ignored and never cause a false
  result) is what the code does on objects without inherited names, but not on all
  objects: \<open>validateSettings\<close> reads \<open>SETTINGS_SCHEMA[key]\<close> without the own-property test
  that the import loop makes, so a key naming a member of \<open>Object.prototype\<close> finds the
  inherited method and calls it as a validator. The object \<open>{ isPrototypeOf: 1 }\<close> has no
  key with a validator in the schema, yet the result is false; for
  \<open>{ hasOwnProperty: 1 }\<close> the call throws a \<open>TypeError\<close> instead of returning.
\<close>

theorem validateSettings_inherited_key:
  "validateSettings [(''isPrototypeOf'', JNumber (Num 1))] = Inr False
   \<and> SETTINGS_SCHEMA ''isPrototypeOf'' = None
   \<and> validateSettings [(''hasOwnProperty'', JNumber (Num 1))] = Inl TypeError
   \<and> SETTINGS_SCHEMA ''hasOwnProperty'' = None"
  by (simp add: validateSettings_def validateEntry_def schemaRead_def callInherited_def
      OBJECT_PROTOTYPE_MEMBERS_def SETTINGS_SCHEMA_def)

text \<open>
  C9. Every field of \<open>DEFAULT_SETTINGS\<close> passes its own validator, so
  \<open>validateSettings(DEFAULT_SETTINGS)\<close> is true; the default \<open>maxImageSize\<close> lies in
  \<open>[10, 1024]\<close>, \<open>imageResizeMaxWidth\<close> in \<open>[0, 10000]\<close>, each commit template is shorter than
  200 characters, and the default \<open>projectType\<close> and \<open>publishDateSource\<close> belong to their
  enumerations.
\<close>

theorem defaults_valid:
  "validateSettings DEFAULT_SETTINGS = Inr True
   \<and> list_all (\<lambda>(key, v). passesValidator key v) DEFAULT_SETTINGS
   \<and> num_ge (prop_of DEFAULT_SETTINGS ''maxImageSize'') 10
   \<and> num_le (prop_of DEFAULT_SETTINGS ''maxImageSize'') 1024
   \<and> num_ge (prop_of DEFAULT_SETTINGS ''imageResizeMaxWidth'') 0
   \<and> num_le (prop_of DEFAULT_SETTINGS ''imageResizeMaxWidth'') 10000
   \<and> str_length (prop_of DEFAULT_SETTINGS ''newPostCommit'') < 200
   \<and> str_length (prop_of DEFAULT_SETTINGS ''updatePostCommit'') < 200
   \<and> str_length (prop_of DEFAULT_SETTINGS ''newImageCommit'') < 200
   \<and> str_length (prop_of DEFAULT_SETTINGS ''updateImageCommit'') < 200
   \<and> arr_includes [JString ''astro'', JString ''github''] (prop_of DEFAULT_SETTINGS ''projectType'')
   \<and> arr_includes [JString ''file'', JString ''system''] (prop_of DEFAULT_SETTINGS ''publishDateSource'')"
  by (simp add: validateSettings_def validateEntry_def schemaRead_def DEFAULT_SETTINGS_def
      passesValidator_def SETTINGS_SCHEMA_def arr_includes_def prop_of_def)

text \<open>
  C10. \<open>setSettings(patch)\<close> with a partial object leaves every settings property whose key
  does not occur in the patch as it was (present with the same value, or absent), and
  leaves \<open>isLoading\<close>, \<open>isSaving\<close>, \<open>saveSuccess\<close> and \<open>isSetupComplete\<close> unchanged.
\<close>

theorem setSettings_frame:
  "(\<forall>k. k \<notin> fst ` set patch \<longrightarrow>
        map_of (settings (setSettings (Partial patch) state)) k = map_of (settings state) k)
   \<and> isLoading (setSettings (Partial patch) state) = isLoading state
   \<and> isSaving (setSettings (Partial patch) state) = isSaving state
   \<and> saveSuccess (setSettings (Partial patch) state) = saveSuccess state
   \<and> isSetupComplete (setSettings (Partial patch) state) = isSetupComplete state"
  by (simp add: map_of_spread_notin)

theorem setSettings_frame_witness:
  "map_of (settings (setSettings (Partial [(''postsPath'', JString ''src/content'')])
       \<lparr>settings = DEFAULT_SETTINGS, isLoading = False, isSaving = False, saveSuccess = False,
        isSetupComplete = False\<rparr>)) ''maxImageSize'' = Some (JNumber (Num 500))
   \<and> ''maxImageSize'' \<notin> fst ` set [(''postsPath'', JString ''src/content'')]"
  using setSettings_frame [of "[(''postsPath'', JString ''src/content'')]"
       "\<lparr>settings = DEFAULT_SETTINGS, isLoading = False, isSaving = False, saveSuccess = False,
        isSetupComplete = False\<rparr>"]
  by (simp add: DEFAULT_SETTINGS_def)


section \<open>Scan progress\<close>

text \<open>
  C8, as the code has it. With an explicit progress value, \<open>scanProgress\<close> is exactly that
  value. Without one, it is 0 when the phase is \<open>null\<close> or the empty string, and 50 when
  the phase is a non-empty string.
\<close>

theorem setScanPhase_progress:
  "scanProgress (setScanPhase phase (Some p) state) = p
   \<and> scanProgress (setScanPhase None None state) = Num 0
   \<and> scanProgress (setScanPhase (Some []) None state) = Num 0
   \<and> scanProgress (setScanPhase (Some (c # s)) None state) = Num 50"
  by (simp add: setScanPhase_def)

text \<open>
  The claim as stated (50 for every non-null phase) fails for the empty string, which is
  not \<open>null\<close> but is falsy in \<open>phase ? 50 : 0\<close>.
\<close>

theorem setScanPhase_nonnull_counterexample:
  "scanProgress (setScanPhase (Some '''') None (initialAppState Dashboard)) \<noteq> Num 50
   \<and> scanProgress (setScanPhase (Some '''') None (initialAppState Dashboard)) = Num 0"
  by (simp add: setScanPhase_def)


section \<open>Sync lock\<close>

text \<open>
  C1. A call of \<open>withSyncLock\<close> that starts while \<open>isSyncing\<close> is set fails at once with
  the busy error, leaves the state as it is and does not run the operation. Otherwise the
  operation runs in a state where \<open>isSyncing\<close> is set and the status message is the given
  message (or the default); the call settles as the operation did, with a value or with
  the thrown error, and in both cases \<open>isSyncing\<close> and the status message are cleared
  afterwards, so that the next call runs its operation. (The operation is one that
  settles; the lock has no timeout.)
\<close>

theorem withSyncLock_exclusive:
  fixes operation :: "'w world \<Rightarrow> (thrown + 'a) \<times> 'w world"
    and next_operation :: "'w world \<Rightarrow> (thrown + 'b) \<times> 'w world"
  shows
  "(isSyncing (appStore w) \<longrightarrow>
      withSyncLock operation message w =
        (Inl (ErrorObj ''Another sync operation is in progress. Please wait.''), w))
   \<and> (\<not> isSyncing (appStore w) \<longrightarrow>
        (let entered = w\<lparr>appStore := startSync message (appStore w)\<rparr>;
             after = snd (withSyncLock operation message w)
         in isSyncing (appStore entered)
            \<and> syncMessage (appStore entered) =
                  Some (case message of None \<Rightarrow> ''Syncing...''
                        | Some m \<Rightarrow> if m = [] then ''Syncing...'' else m)
            \<and> withSyncLock operation message w =
                  (fst (operation entered),
                   (snd (operation entered))\<lparr>appStore := endSync (appStore (snd (operation entered)))\<rparr>)
            \<and> \<not> isSyncing (appStore after)
            \<and> syncMessage (appStore after) = None
            \<and> fst (withSyncLock next_operation next_message after)
                = fst (next_operation (after\<lparr>appStore := startSync next_message (appStore after)\<rparr>))))"
  by (auto simp: withSyncLock_def startSync_def endSync_def Let_def split: prod.splits option.splits)

theorem withSyncLock_exclusive_witness:
  "fst (withSyncLock (\<lambda>w. (Inr True, w)) (Some ''Importing configuration...'')
         ((initialWorld () Map.empty)\<lparr>appStore := startSync (Some ''Saving settings...'') (initialAppState Dashboard)\<rparr>))
     = Inl (ErrorObj ''Another sync operation is in progress. Please wait.'')
   \<and> fst (withSyncLock (\<lambda>w. (Inl (ErrorObj ''Network error'') :: thrown + bool, w)) (Some ''Saving settings...'')
         (initialWorld () Map.empty))
     = Inl (ErrorObj ''Network error'')
   \<and> \<not> isSyncing (appStore (snd (withSyncLock (\<lambda>w. (Inl (ErrorObj ''Network error'') :: thrown + bool, w))
         (Some ''Saving settings...'') (initialWorld () Map.empty))))
   \<and> fst (withSyncLock (\<lambda>w. (Inr True, w)) None
         (snd (withSyncLock (\<lambda>w. (Inl (ErrorObj ''Network error'') :: thrown + bool, w))
         (Some ''Saving settings...'') (initialWorld () Map.empty)))) = Inr True"
  using withSyncLock_exclusive [of
      "(initialWorld () Map.empty)\<lparr>appStore := startSync (Some ''Saving settings...'') (initialAppState Dashboard)\<rparr>"
      "\<lambda>w. (Inr True, w)" "Some ''Importing configuration...''" "\<lambda>w. (Inr True, w)" None]
    withSyncLock_exclusive [of "initialWorld () Map.empty"
      "\<lambda>w. (Inl (ErrorObj ''Network error'') :: thrown + bool, w)" "Some ''Saving settings...''"
      "\<lambda>w. (Inr True, w)" None]
  by (simp add: initialWorld_def initialAppState_def startSync_def endSync_def withSyncLock_def Let_def)


section \<open>Local cache\<close>

text \<open>
  C6. \<open>loadSettings(repoId)\<close> reads each field of \<open>DEFAULT_SETTINGS\<close> from the key that
  \<open>getStorageKey\<close> gives it (scoped by the repository for the four repository-specific
  fields, the bare field name for the others), decodes the stored string (\<open>'true'\<close> and
  \<open>'false'\<close> to booleans, a non-empty string that \<open>Number\<close> converts to a number to that
  number, anything else unchanged) and validates it on its own: after the call a field
  holds its decoded cached value if there is one and it passes the field's validator, and
  its previous value otherwise, whatever the other cached values are.
\<close>

theorem loadSettings_valid_subset:
  "map_of (settings (loadSettings toNumber repoId storage state)) key =
     (if key \<in> fst ` set DEFAULT_SETTINGS then
        (case storage (getStorageKey key repoId (key \<in> set REPO_SPECIFIC_KEYS)) of
           None \<Rightarrow> map_of (settings state) key
         | Some stored \<Rightarrow>
             if passes key (parseStored toNumber stored) then Some (parseStored toNumber stored)
             else map_of (settings state) key)
      else map_of (settings state) key)
   \<and> getStorageKey key repoId (key \<in> set REPO_SPECIFIC_KEYS) =
       (if key \<in> {''projectType'', ''postsPath'', ''imagesPath'', ''domainUrl''}
        then key @ ''_'' @ repoId else key)
   \<and> parseStored toNumber ''true'' = JBool True
   \<and> parseStored toNumber ''false'' = JBool False
   \<and> (stored \<noteq> ''true'' \<and> stored \<noteq> ''false'' \<longrightarrow>
        parseStored toNumber stored =
          (if toNumber stored \<noteq> NaN \<and> stored \<noteq> [] then JNumber (toNumber stored)
           else JString stored))"
  using map_of_loadSettings [of toNumber repoId storage state key]
  by (simp add: getStorageKey_def REPO_SPECIFIC_KEYS_def parseStored_def)

theorem loadSettings_valid_subset_witness:
  "map_of (settings (loadSettings (\<lambda>s. if s = ''5'' then Num 5 else NaN) ''octo/blog''
       [''projectType_octo/blog'' \<mapsto> ''github'', ''maxImageSize'' \<mapsto> ''5'']
       initialSettingsState)) ''projectType'' = Some (JString ''github'')
   \<and> map_of (settings (loadSettings (\<lambda>s. if s = ''5'' then Num 5 else NaN) ''octo/blog''
       [''projectType_octo/blog'' \<mapsto> ''github'', ''maxImageSize'' \<mapsto> ''5'']
       initialSettingsState)) ''maxImageSize'' = Some (JNumber (Num 500))
   \<and> parseStored (\<lambda>s. if s = ''5'' then Num 5 else NaN) ''github'' = JString ''github''
   \<and> parseStored (\<lambda>s. if s = ''5'' then Num 5 else NaN) ''5'' = JNumber (Num 5)"
  using loadSettings_valid_subset [of "\<lambda>s. if s = ''5'' then Num 5 else NaN" "''octo/blog''"
       "[''projectType_octo/blog'' \<mapsto> ''github'', ''maxImageSize'' \<mapsto> ''5'']"
       initialSettingsState "''projectType''" "''github''"]
    loadSettings_valid_subset [of "\<lambda>s. if s = ''5'' then Num 5 else NaN" "''octo/blog''"
       "[''projectType_octo/blog'' \<mapsto> ''github'', ''maxImageSize'' \<mapsto> ''5'']"
       initialSettingsState "''maxImageSize''" "''5''"]
  by (simp add: DEFAULT_SETTINGS_def initialSettingsState_def passes_def schema_projectType
      schema_maxImageSize arr_includes_def)


section \<open>Remote merge\<close>

text \<open>
  C4, as the code has it. In the merge of the remote file over the draft, the value the
  file gives for a field replaces the draft's value exactly when it passes the field's
  validator and, for the four fields read behind a truthiness test (\<open>projectType\<close>,
  \<open>paths.posts\<close>, \<open>paths.images\<close>, \<open>domainUrl\<close>), is also truthy; otherwise the draft keeps
  its value for that field. This holds for each field whatever the other fields hold, so a
  rejected value never stops the merge of the rest.
\<close>

theorem mergeRemoteConfig_field:
  "map_of (mergeRemoteConfig config draft) key =
     (if key \<in> set cacheKeys \<and> passesValidator key (remoteValue config key)
         \<and> (key \<in> set guardedFields \<longrightarrow> truthy (remoteValue config key))
      then Some (remoteValue config key)
      else map_of draft key)"
proof -
  have "map_of (mergeRemoteConfig config draft) key =
      (if key \<in> set commitFields \<and> passesValidator key (remoteValue config key)
       then Some (remoteValue config key)
       else if key \<in> set technicalFields \<and> passesValidator key (remoteValue config key)
       then Some (remoteValue config key)
       else if key \<in> set guardedFields \<and> truthy (remoteValue config key)
               \<and> passesValidator key (remoteValue config key)
       then Some (remoteValue config key)
       else map_of draft key)"
    unfolding mergeRemoteConfig_def comp_def
    by (simp only: map_of_mergeCommits map_of_mergeTechnical map_of_mergePathsAndProject)
  note step = this
  consider (c) "key \<in> set commitFields" | (t) "key \<in> set technicalFields"
    | (g) "key \<in> set guardedFields" | (n) "key \<notin> set cacheKeys"
    using cacheKeys_groups [of key] by blast
  then show ?thesis
  proof cases
    case c
    then have "key \<notin> set guardedFields" "key \<in> set cacheKeys"
      using guarded_not_commit [of key] cacheKeys_groups [of key] by blast+
    with c step show ?thesis by simp
  next
    case t
    then have "key \<notin> set guardedFields" "key \<in> set cacheKeys"
      using guarded_not_technical [of key] cacheKeys_groups [of key] by blast+
    with t step show ?thesis by simp
  next
    case g
    then have "key \<notin> set technicalFields" "key \<notin> set commitFields" "key \<in> set cacheKeys"
      using guarded_not_technical [of key] guarded_not_commit [of key] cacheKeys_groups [of key]
      by blast+
    with g step show ?thesis by auto
  next
    case n
    then have "key \<notin> set technicalFields" "key \<notin> set commitFields" "key \<notin> set guardedFields"
      using cacheKeys_groups [of key] by blast+
    with n step show ?thesis by simp
  qed
qed

theorem mergeRemoteConfig_field_witness:
  "map_of (mergeRemoteConfig
       (JObject [(''version'', JNumber (Num 1)), (''projectType'', JString ''github''),
                 (''domainUrl'', JString ''''),
                 (''settings'', JObject [(''maxImageSize'', JNumber (Num 5000))])])
       DEFAULT_SETTINGS) ''projectType'' = Some (JString ''github'')
   \<and> map_of (mergeRemoteConfig
       (JObject [(''version'', JNumber (Num 1)), (''projectType'', JString ''github''),
                 (''domainUrl'', JString ''''),
                 (''settings'', JObject [(''maxImageSize'', JNumber (Num 5000))])])
       DEFAULT_SETTINGS) ''maxImageSize'' = Some (JNumber (Num 500))"
  using mergeRemoteConfig_field [of
       "JObject [(''version'', JNumber (Num 1)), (''projectType'', JString ''github''),
                 (''domainUrl'', JString ''''),
                 (''settings'', JObject [(''maxImageSize'', JNumber (Num 5000))])]"
       DEFAULT_SETTINGS "''projectType''"]
    mergeRemoteConfig_field [of
       "JObject [(''version'', JNumber (Num 1)), (''projectType'', JString ''github''),
                 (''domainUrl'', JString ''''),
                 (''settings'', JObject [(''maxImageSize'', JNumber (Num 5000))])]"
       DEFAULT_SETTINGS "''maxImageSize''"]
  by (simp add: cacheKeys_def guardedFields_def remoteValue_def passesValidator_def prop_of_def
      schema_projectType schema_maxImageSize arr_includes_def DEFAULT_SETTINGS_def)

text \<open>
  The claim as stated (merged if and only if the validator passes) fails for an empty
  \<open>domainUrl\<close> in the remote file: the validator accepts the empty string, but
  \<open>if (config.domainUrl)\<close> skips it and the draft keeps the cached URL.
\<close>

theorem remote_merge_iff_counterexample:
  "passesValidator ''domainUrl'' (remoteValue (JObject [(''domainUrl'', JString '''')]) ''domainUrl'')
   \<and> remoteValue (JObject [(''domainUrl'', JString '''')]) ''domainUrl'' = JString ''''
   \<and> map_of (mergeRemoteConfig (JObject [(''domainUrl'', JString '''')])
               [(''domainUrl'', JString ''https://old.example.org'')]) ''domainUrl''
       = Some (JString ''https://old.example.org'')"
  by (simp add: remoteValue_def passesValidator_def schema_domainUrl prop_of_def
      mergeRemoteConfig_def mergeCommits_def mergeTechnical_def mergePathsAndProject_def
      applyIfTruthy_def applyIfValid_def)


section \<open>Bootstrap\<close>

text \<open>
  C2. When the repository holds a usable configuration file (the read succeeds and the
  content parses to a value that is not falsy), the bootstrap ends with
  \<open>isSetupComplete = true\<close> and its only call to the Git service is the read of
  \<open>.pageelrc.json\<close>: none of \<open>findProductionUrl\<close>, \<open>scanForContentDirectories\<close> and
  \<open>scanForImageDirectories\<close> is called. When there is no usable file and the cache holds
  none of the settings keys of the repository, the scan runs and the bootstrap leaves
  \<open>isSetupComplete\<close> as it was, whatever the scan returns: a flag that was false stays
  false, also when all three collaborators resolve and the scan ends with
  \<open>Scan complete\<close> at 100.
\<close>

theorem bootstrap_setup_gate:
  "(remoteUsable js git \<longrightarrow>
      isSetupComplete (settingsStore (loadSettingsAndScan js git store full_name rendered collectionsData w))
      \<and> gitCalls (loadSettingsAndScan js git store full_name rendered collectionsData w)
          = gitCalls w @ [GetFileContent ''.pageelrc.json''])
   \<and> (\<not> remoteUsable js git
        \<and> (\<forall>key \<in> set cacheKeys. localStorage w (scopedKey key full_name) = None) \<longrightarrow>
      isSetupComplete (settingsStore (loadSettingsAndScan js git store full_name rendered collectionsData w))
        = isSetupComplete (settingsStore w)
      \<and> scanCalled (gitCalls (loadSettingsAndScan js git store full_name rendered collectionsData w))
      \<and> (findProductionUrl git = Inr foundUrl \<and> scanForContentDirectories git = Inr contentDirs
           \<and> scanForImageDirectories git = Inr imageDirs \<longrightarrow>
           scanPhase (appStore (loadSettingsAndScan js git store full_name rendered collectionsData w))
             = Some ''Scan complete''
           \<and> scanProgress (appStore (loadSettingsAndScan js git store full_name rendered collectionsData w))
             = Num 100))"
proof (intro conjI impI)
  assume "remoteUsable js git"
  then show "isSetupComplete (settingsStore (loadSettingsAndScan js git store full_name rendered collectionsData w))"
    and "gitCalls (loadSettingsAndScan js git store full_name rendered collectionsData w)
          = gitCalls w @ [GetFileContent ''.pageelrc.json'']"
    using bootstrap_usable [where js = js and git = git and store = store and full_name = full_name
        and rendered = rendered and collectionsData = collectionsData and w = w]
    by simp_all
next
  assume a: "\<not> remoteUsable js git
        \<and> (\<forall>key \<in> set cacheKeys. localStorage w (scopedKey key full_name) = None)"
  then have "localStorage w (scopedKey ''projectType'' full_name) = None"
    by (simp add: cacheKeys_def)
  then have n: "\<not> cacheSupplies js full_name (localStorage w) ''projectType''"
    by (simp add: cacheSupplies_def)
  with a show "isSetupComplete (settingsStore (loadSettingsAndScan js git store full_name rendered collectionsData w))
        = isSetupComplete (settingsStore w)"
    and "scanCalled (gitCalls (loadSettingsAndScan js git store full_name rendered collectionsData w))"
    using bootstrap_unusable [where js = js and git = git and store = store and full_name = full_name
        and rendered = rendered and collectionsData = collectionsData and w = w]
    by blast+
  assume s: "findProductionUrl git = Inr foundUrl \<and> scanForContentDirectories git = Inr contentDirs
           \<and> scanForImageDirectories git = Inr imageDirs"
  from a n obtain w5 where "loadSettingsAndScan js git store full_name rendered collectionsData w
          = scanRepository git rendered w5"
    using bootstrap_scan_route [where js = js and git = git and store = store and full_name = full_name
        and rendered = rendered and collectionsData = collectionsData and w = w]
    by blast
  with s show "scanPhase (appStore (loadSettingsAndScan js git store full_name rendered collectionsData w))
             = Some ''Scan complete''"
    and "scanProgress (appStore (loadSettingsAndScan js git store full_name rendered collectionsData w))
             = Num 100"
    using scanRepository_success [of git foundUrl contentDirs imageDirs rendered w5] by simp_all
qed

theorem bootstrap_setup_gate_witness:
  "isSetupComplete (settingsStore (loadSettingsAndScan
       (exampleBuiltins (Inr (JObject [(''version'', JNumber (Num 2)),
          (''collections'', JArray [JObject [(''id'', JString ''collection-1'')]])])))
       (exampleGit (Inr ''{ }'')) exampleStore ''octo/blog'' DEFAULT_SETTINGS
       (Some \<lparr>collections = [JObject [(''id'', JString ''collection-1'')]], sharedSettings = JUndefined\<rparr>)
       (initialWorld [] Map.empty)))
   \<and> gitCalls (loadSettingsAndScan
       (exampleBuiltins (Inr (JObject [(''version'', JNumber (Num 2)),
          (''collections'', JArray [JObject [(''id'', JString ''collection-1'')]])])))
       (exampleGit (Inr ''{ }'')) exampleStore ''octo/blog'' DEFAULT_SETTINGS
       (Some \<lparr>collections = [JObject [(''id'', JString ''collection-1'')]], sharedSettings = JUndefined\<rparr>)
       (initialWorld [] Map.empty)) = [GetFileContent ''.pageelrc.json'']
   \<and> \<not> isSetupComplete (settingsStore (loadSettingsAndScan
       (exampleBuiltins (Inl (ErrorObj ''Unexpected end of JSON input'')))
       (exampleGit (Inl (ErrorObj ''Not Found''))) exampleStore ''octo/blog'' DEFAULT_SETTINGS
       (None :: collectionsData option)
       (initialWorld [] Map.empty)))
   \<and> scanPhase (appStore (loadSettingsAndScan
       (exampleBuiltins (Inl (ErrorObj ''Unexpected end of JSON input'')))
       (exampleGit (Inl (ErrorObj ''Not Found''))) exampleStore ''octo/blog'' DEFAULT_SETTINGS
       (None :: collectionsData option)
       (initialWorld [] Map.empty))) = Some ''Scan complete''"
  using bootstrap_setup_gate [where
       js = "exampleBuiltins (Inr (JObject [(''version'', JNumber (Num 2)),
          (''collections'', JArray [JObject [(''id'', JString ''collection-1'')]])]))"
       and git = "exampleGit (Inr ''{ }'')" and store = exampleStore and full_name = "''octo/blog''"
       and rendered = DEFAULT_SETTINGS
       and collectionsData = "Some \<lparr>collections = [JObject [(''id'', JString ''collection-1'')]],
                                      sharedSettings = JUndefined\<rparr>"
       and w = "initialWorld [] Map.empty"]
    bootstrap_setup_gate [where
       js = "exampleBuiltins (Inl (ErrorObj ''Unexpected end of JSON input''))"
       and git = "exampleGit (Inl (ErrorObj ''Not Found''))" and store = exampleStore
       and full_name = "''octo/blog''" and rendered = DEFAULT_SETTINGS
       and collectionsData = "None :: collectionsData option"
       and w = "initialWorld [] Map.empty"
       and foundUrl = "Some ''https://example.org''" and contentDirs = "[''src/content/posts'']"
       and imageDirs = "[''public/images'']"]
  by (simp add: remoteUsable_def exampleBuiltins_def exampleGit_def initialWorld_def
      initialSettingsState_def)

text \<open>
  C5. When there is no usable remote configuration file, the bootstrap marks setup
  complete and stops before the scan exactly when the cache supplies all three of project
  type, posts path and images path (each cached under the repository's key with a decoded
  value that passes its validator and is not empty): then \<open>isSetupComplete\<close> is true and
  no scan collaborator is called; otherwise \<open>isSetupComplete\<close> keeps its value and the scan
  runs.
\<close>

theorem cache_sufficiency:
  assumes "\<not> remoteUsable js git"
  shows "(cacheSupplies js full_name (localStorage w) ''projectType''
          \<and> cacheSupplies js full_name (localStorage w) ''postsPath''
          \<and> cacheSupplies js full_name (localStorage w) ''imagesPath'' \<longrightarrow>
            isSetupComplete (settingsStore (loadSettingsAndScan js git store full_name rendered collectionsData w))
            \<and> gitCalls (loadSettingsAndScan js git store full_name rendered collectionsData w)
                = gitCalls w @ [GetFileContent ''.pageelrc.json''])
       \<and> (\<not> (cacheSupplies js full_name (localStorage w) ''projectType''
          \<and> cacheSupplies js full_name (localStorage w) ''postsPath''
          \<and> cacheSupplies js full_name (localStorage w) ''imagesPath'') \<longrightarrow>
            isSetupComplete (settingsStore (loadSettingsAndScan js git store full_name rendered collectionsData w))
              = isSetupComplete (settingsStore w)
            \<and> scanCalled (gitCalls (loadSettingsAndScan js git store full_name rendered collectionsData w)))"
  using assms by (rule bootstrap_unusable)

theorem cache_sufficiency_witness:
  "isSetupComplete (settingsStore (loadSettingsAndScan
       (exampleBuiltins (Inl (ErrorObj ''Unexpected end of JSON input'')))
       (exampleGit (Inl (ErrorObj ''Not Found''))) exampleStore ''octo/blog'' DEFAULT_SETTINGS
       (None :: collectionsData option)
       (initialWorld []
          [''projectType_octo/blog'' \<mapsto> ''github'', ''postsPath_octo/blog'' \<mapsto> ''src/content'',
           ''imagesPath_octo/blog'' \<mapsto> ''public/images''])))
   \<and> \<not> isSetupComplete (settingsStore (loadSettingsAndScan
       (exampleBuiltins (Inl (ErrorObj ''Unexpected end of JSON input'')))
       (exampleGit (Inl (ErrorObj ''Not Found''))) exampleStore ''octo/blog'' DEFAULT_SETTINGS
       (None :: collectionsData option)
       (initialWorld []
          [''projectType_octo/blog'' \<mapsto> ''github'', ''postsPath_octo/blog'' \<mapsto> [],
           ''imagesPath_octo/blog'' \<mapsto> ''public/images''])))
   \<and> \<not> remoteUsable (exampleBuiltins (Inl (ErrorObj ''Unexpected end of JSON input'')))
       (exampleGit (Inl (ErrorObj ''Not Found'')))"
  using cache_sufficiency [where
       js = "exampleBuiltins (Inl (ErrorObj ''Unexpected end of JSON input''))"
       and git = "exampleGit (Inl (ErrorObj ''Not Found''))" and store = exampleStore
       and full_name = "''octo/blog''" and rendered = DEFAULT_SETTINGS
       and collectionsData = "None :: collectionsData option"
       and w = "initialWorld []
          [''projectType_octo/blog'' \<mapsto> ''github'', ''postsPath_octo/blog'' \<mapsto> ''src/content'',
           ''imagesPath_octo/blog'' \<mapsto> ''public/images'']"]
    cache_sufficiency [where
       js = "exampleBuiltins (Inl (ErrorObj ''Unexpected end of JSON input''))"
       and git = "exampleGit (Inl (ErrorObj ''Not Found''))" and store = exampleStore
       and full_name = "''octo/blog''" and rendered = DEFAULT_SETTINGS
       and collectionsData = "None :: collectionsData option"
       and w = "initialWorld []
          [''projectType_octo/blog'' \<mapsto> ''github'', ''postsPath_octo/blog'' \<mapsto> [],
           ''imagesPath_octo/blog'' \<mapsto> ''public/images'']"]
  by (simp add: remoteUsable_def exampleBuiltins_def exampleGit_def initialWorld_def
      initialSettingsState_def cacheSupplies_def scopedKey_def parseStored_def passes_def
      schema_projectType schema_postsPath schema_imagesPath arr_includes_def)


text \<open>
  The settings store's own \<open>loadSettings\<close>, which the dashboard's bootstrap does not call,
  makes its test on the merged settings rather than on the cached values alone, so the
  defaults count: with only a posts path in the cache it marks setup complete.
\<close>

lemma loadSettings_setup_check:
  "isSetupComplete (loadSettings toNumber repoId storage state) =
     (isSetupComplete state
      \<or> truthy (prop_of (settings (loadSettings toNumber repoId storage state)) ''projectType'')
        \<and> truthy (prop_of (settings (loadSettings toNumber repoId storage state)) ''postsPath'')
        \<and> truthy (prop_of (settings (loadSettings toNumber repoId storage state)) ''imagesPath''))"
  by (auto simp add: loadSettings_def Let_def)

lemma loadSettings_defaults_fill_in:
  "isSetupComplete (loadSettings (\<lambda>s. NaN) ''octo/blog''
       [''postsPath_octo/blog'' \<mapsto> ''src/content''] initialSettingsState)"
proof -
  let ?st = "loadSettings (\<lambda>s. NaN) ''octo/blog''
       [''postsPath_octo/blog'' \<mapsto> ''src/content''] initialSettingsState"
  have "prop_of (settings ?st) ''projectType'' = JString ''astro''"
    by (simp add: prop_of_def map_of_loadSettings getStorageKey_def REPO_SPECIFIC_KEYS_def
        initialSettingsState_def DEFAULT_SETTINGS_def)
  moreover have "prop_of (settings ?st) ''postsPath'' = JString ''src/content''"
    by (simp add: prop_of_def map_of_loadSettings getStorageKey_def REPO_SPECIFIC_KEYS_def
        initialSettingsState_def DEFAULT_SETTINGS_def parseStored_def passes_def schema_postsPath)
  moreover have "prop_of (settings ?st) ''imagesPath'' = JString ''public/images''"
    by (simp add: prop_of_def map_of_loadSettings getStorageKey_def REPO_SPECIFIC_KEYS_def
        initialSettingsState_def DEFAULT_SETTINGS_def)
  ultimately show ?thesis
    by (subst loadSettings_setup_check) simp
qed


section \<open>Schema version detection\<close>






end
